theory Spec2Isabelle
  imports Complex_Main
begin

section \<open>Scalars, vectors and boxes\<close>

text \<open>
  The program computes with C++ \<^verbatim>\<open>float\<close> and \<^verbatim>\<open>glm::vec3\<close>. A scalar is a real number,
  and a literal such as \<^verbatim>\<open>0.12f\<close> is the decimal it writes. Comparisons and the control
  flow built on them are those of the source. The arithmetic of the overlap test
  \<^verbatim>\<open>sphereIntersectsAABB\<close> is binary32 arithmetic, since its rounding decides the test
  near the surface of a box; the arithmetic of the desired position and of the camera is
  exact. The fields \<^verbatim>\<open>x\<close>, \<^verbatim>\<open>y\<close>, \<^verbatim>\<open>z\<close> of a vector are \<open>vx\<close>, \<open>vy\<close>, \<open>vz\<close>; the
  fields \<^verbatim>\<open>min\<close>, \<^verbatim>\<open>max\<close> of a \<^verbatim>\<open>Box\<close> are \<open>bmin\<close>, \<open>bmax\<close>.
\<close>

type_synonym scalar = real

record vec3 =
  vx :: scalar
  vy :: scalar
  vz :: scalar

record Box =
  bmin :: vec3
  bmax :: vec3

text \<open>\<^verbatim>\<open>std::max(a, b)\<close> is \<^verbatim>\<open>(a < b) ? b : a\<close>, \<^verbatim>\<open>std::min(a, b)\<close> is
  \<^verbatim>\<open>(b < a) ? b : a\<close>.\<close>

definition std_max :: "scalar \<Rightarrow> scalar \<Rightarrow> scalar" where
  "std_max a b = (if a < b then b else a)"

definition std_min :: "scalar \<Rightarrow> scalar \<Rightarrow> scalar" where
  "std_min a b = (if b < a then b else a)"

section \<open>Binary32 arithmetic\<close>

text \<open>
  The sums, differences and products of \<^verbatim>\<open>sphereIntersectsAABB\<close> are computed in
  \<^verbatim>\<open>float\<close>, and their rounding decides the test near the surface of a box. They are
  modelled as IEEE 754 binary32 operations: the exact result is rounded to the nearest
  number with a 24 bit significand, ties to the even significand, with gradual underflow
  below \<open>2\<^sup>-\<^sup>1\<^sup>2\<^sup>6\<close> and overflow to an infinity from \<open>2\<^sup>1\<^sup>2\<^sup>8\<close> on. Every operation is
  rounded on its own, in the order the expression is written.
\<close>

datatype f32 = Fin real | PInf | MInf | NaN

text \<open>The exponent of the binade of a positive number: \<open>expo_up\<close> halves a number from
  \<open>1\<close> on, \<open>expo_down\<close> doubles a number below \<open>1\<close>; the exponent stops at \<open>-126\<close>, where
  the subnormal numbers begin, and at \<open>128\<close>, beyond the largest finite number.\<close>

fun expo_up :: "nat \<Rightarrow> real \<Rightarrow> int" where
  "expo_up 0 a = 0"
| "expo_up (Suc n) a = (if a < 2 then 0 else expo_up n (a / 2) + 1)"

fun expo_down :: "nat \<Rightarrow> real \<Rightarrow> int" where
  "expo_down 0 a = 0"
| "expo_down (Suc n) a = (if 1 \<le> a then 0 else expo_down n (a * 2) - 1)"

definition expo32 :: "real \<Rightarrow> int" where
  "expo32 a = (if 1 \<le> a then expo_up 128 a else expo_down 126 a)"

definition pow2 :: "int \<Rightarrow> real" where
  "pow2 k = (if 0 \<le> k then 2 ^ nat k else 1 / 2 ^ nat (- k))"

definition round_even :: "real \<Rightarrow> int" where
  "round_even q =
     (let f = \<lfloor>q\<rfloor>; d = q - of_int f
      in if d < 1 / 2 then f else if 1 / 2 < d then f + 1 else if even f then f else f + 1)"

definition round32 :: "real \<Rightarrow> f32" where
  "round32 a =
     (let u = pow2 (expo32 \<bar>a\<bar> - 23);
          v = of_int (round_even (a / u)) * u
      in if 2 ^ 128 \<le> \<bar>v\<bar> then (if 0 < a then PInf else MInf) else Fin v)"

fun f32_add :: "f32 \<Rightarrow> f32 \<Rightarrow> f32" where
  "f32_add (Fin a) (Fin b) = round32 (a + b)"
| "f32_add NaN v = NaN"
| "f32_add v NaN = NaN"
| "f32_add PInf MInf = NaN"
| "f32_add MInf PInf = NaN"
| "f32_add PInf v = PInf"
| "f32_add v PInf = PInf"
| "f32_add MInf v = MInf"
| "f32_add v MInf = MInf"

fun f32_sub :: "f32 \<Rightarrow> f32 \<Rightarrow> f32" where
  "f32_sub (Fin a) (Fin b) = round32 (a - b)"
| "f32_sub NaN v = NaN"
| "f32_sub v NaN = NaN"
| "f32_sub PInf PInf = NaN"
| "f32_sub MInf MInf = NaN"
| "f32_sub PInf v = PInf"
| "f32_sub v MInf = PInf"
| "f32_sub MInf v = MInf"
| "f32_sub v PInf = MInf"

fun f32_mul :: "f32 \<Rightarrow> f32 \<Rightarrow> f32" where
  "f32_mul (Fin a) (Fin b) = round32 (a * b)"
| "f32_mul NaN v = NaN"
| "f32_mul v NaN = NaN"
| "f32_mul (Fin a) PInf = (if a = 0 then NaN else if 0 < a then PInf else MInf)"
| "f32_mul (Fin a) MInf = (if a = 0 then NaN else if 0 < a then MInf else PInf)"
| "f32_mul PInf (Fin b) = (if b = 0 then NaN else if 0 < b then PInf else MInf)"
| "f32_mul MInf (Fin b) = (if b = 0 then NaN else if 0 < b then MInf else PInf)"
| "f32_mul PInf PInf = PInf"
| "f32_mul MInf MInf = PInf"
| "f32_mul PInf MInf = MInf"
| "f32_mul MInf PInf = MInf"

fun f32_less :: "f32 \<Rightarrow> f32 \<Rightarrow> bool" where
  "f32_less (Fin a) (Fin b) = (a < b)"
| "f32_less NaN v = False"
| "f32_less v NaN = False"
| "f32_less MInf MInf = False"
| "f32_less MInf v = True"
| "f32_less v PInf = (v \<noteq> PInf)"
| "f32_less v MInf = False"
| "f32_less PInf v = False"

section \<open>Collision tests\<close>

text \<open>\<^verbatim>\<open>sphereIntersectsAABB\<close>, lines 246 to 252. \<^verbatim>\<open>std::max\<close> and \<^verbatim>\<open>std::min\<close> select
  one of their arguments; the arithmetic of \<^verbatim>\<open>distSq\<close> and \<^verbatim>\<open>radius * radius\<close> is in
  binary32.\<close>

definition sphereIntersectsAABB :: "vec3 \<Rightarrow> scalar \<Rightarrow> Box \<Rightarrow> bool" where
  "sphereIntersectsAABB center radius b =
     (let x = std_max (vx (bmin b)) (std_min (vx center) (vx (bmax b)));
          y = std_max (vy (bmin b)) (std_min (vy center) (vy (bmax b)));
          z = std_max (vz (bmin b)) (std_min (vz center) (vz (bmax b)));
          dx = f32_sub (Fin x) (Fin (vx center));
          dy = f32_sub (Fin y) (Fin (vy center));
          dz = f32_sub (Fin z) (Fin (vz center));
          distSq = f32_add (f32_add (f32_mul dx dx) (f32_mul dy dy)) (f32_mul dz dz)
      in f32_less distSq (f32_mul (Fin radius) (Fin radius)))"

text \<open>\<^verbatim>\<open>collidesWithAnyObstacle\<close>, lines 254 to 259. The global vector
  \<^verbatim>\<open>obstacles\<close> is the first argument; the loop returns at the first overlap.\<close>

fun collidesWithAnyObstacle :: "Box list \<Rightarrow> vec3 \<Rightarrow> scalar \<Rightarrow> bool" where
  "collidesWithAnyObstacle [] center radius = False"
| "collidesWithAnyObstacle (b # bs) center radius =
     (if sphereIntersectsAABB center radius b then True
      else collidesWithAnyObstacle bs center radius)"

section \<open>Horizontal move resolution\<close>

text \<open>
  Lines 548 to 560 of \<^verbatim>\<open>processInput\<close>: the desired position gets the current height,
  the full move is tested, and a blocked move is retried one axis at a time. \<open>pos\<close> is
  the global \<^verbatim>\<open>objectPos\<close> on entry; \<open>pos1\<close> and the result are its later values.
  \<^verbatim>\<open>tryZ\<close> is copied from \<^verbatim>\<open>objectPos\<close> after the X step has written to it.
\<close>

definition resolveHorizontalMove :: "Box list \<Rightarrow> vec3 \<Rightarrow> vec3 \<Rightarrow> scalar \<Rightarrow> vec3" where
  "resolveHorizontalMove obs pos desired0 radius =
     (let desired = desired0\<lparr>vy := vy pos\<rparr>;
          collide = collidesWithAnyObstacle obs desired radius
      in if \<not> collide then desired
         else
           (let tryX = pos\<lparr>vx := vx desired\<rparr>;
                pos1 = (if \<not> collidesWithAnyObstacle obs tryX radius
                        then pos\<lparr>vx := vx tryX\<rparr> else pos);
                tryZ = pos1\<lparr>vz := vz desired\<rparr>
            in if \<not> collidesWithAnyObstacle obs tryZ radius
               then pos1\<lparr>vz := vz tryZ\<rparr> else pos1))"

section \<open>Vertical placement\<close>

text \<open>
  \<^verbatim>\<open>highestPlatformTopAtXZ\<close>, lines 262 to 275. \<open>platformScan\<close> is its loop over the
  global vector \<^verbatim>\<open>platforms\<close>, carrying the locals \<^verbatim>\<open>found\<close> and \<^verbatim>\<open>best\<close>. The
  function returns \<^verbatim>\<open>found\<close> and writes \<^verbatim>\<open>outTopY\<close> only when it is true: the result
  is \<open>Some best\<close> then and \<open>None\<close> otherwise. \<^verbatim>\<open>best\<close> starts at \<^verbatim>\<open>-1e9f\<close>.
\<close>

fun platformScan :: "Box list \<Rightarrow> scalar \<Rightarrow> scalar \<Rightarrow> bool \<times> scalar \<Rightarrow> bool \<times> scalar" where
  "platformScan [] x z (found, best) = (found, best)"
| "platformScan (p # ps) x z (found, best) =
     (if x \<ge> vx (bmin p) \<and> x \<le> vx (bmax p) \<and> z \<ge> vz (bmin p) \<and> z \<le> vz (bmax p)
      then (if vy (bmax p) > best
            then platformScan ps x z (True, vy (bmax p))
            else platformScan ps x z (found, best))
      else platformScan ps x z (found, best))"

definition highestPlatformTopAtXZ :: "Box list \<Rightarrow> scalar \<Rightarrow> scalar \<Rightarrow> scalar option" where
  "highestPlatformTopAtXZ plats x z =
     (case platformScan plats x z (False, - 1000000000) of
        (found, best) \<Rightarrow> if found then Some best else None)"

section \<open>Vector operations of glm\<close>

definition vadd :: "vec3 \<Rightarrow> vec3 \<Rightarrow> vec3" where
  "vadd a b = \<lparr>vx = vx a + vx b, vy = vy a + vy b, vz = vz a + vz b\<rparr>"

definition vsub :: "vec3 \<Rightarrow> vec3 \<Rightarrow> vec3" where
  "vsub a b = \<lparr>vx = vx a - vx b, vy = vy a - vy b, vz = vz a - vz b\<rparr>"

definition smul :: "vec3 \<Rightarrow> scalar \<Rightarrow> vec3" where
  "smul a k = \<lparr>vx = vx a * k, vy = vy a * k, vz = vz a * k\<rparr>"

definition dot :: "vec3 \<Rightarrow> vec3 \<Rightarrow> scalar" where
  "dot a b = vx a * vx b + vy a * vy b + vz a * vz b"

definition cross :: "vec3 \<Rightarrow> vec3 \<Rightarrow> vec3" where
  "cross a b = \<lparr>vx = vy a * vz b - vy b * vz a,
                 vy = vz a * vx b - vz b * vx a,
                 vz = vx a * vy b - vx b * vy a\<rparr>"

text \<open>\<^verbatim>\<open>glm::normalize(v)\<close> is \<^verbatim>\<open>v * inversesqrt(dot(v, v))\<close>; \<^verbatim>\<open>glm::radians\<close>
  multiplies by \<open>\<pi> / 180\<close>.\<close>

definition inversesqrt :: "scalar \<Rightarrow> scalar" where
  "inversesqrt a = 1 / sqrt a"

definition normalize :: "vec3 \<Rightarrow> vec3" where
  "normalize v = smul v (inversesqrt (dot v v))"

definition radians :: "scalar \<Rightarrow> scalar" where
  "radians deg = deg * (pi / 180)"

section \<open>The simulation state\<close>

text \<open>The global variables of the program that the input handlers and the frame loop
  read and write, and the key states \<^verbatim>\<open>glfwGetKey\<close> reports in one frame.\<close>

record sim_state =
  camYaw :: scalar
  camPitch :: scalar
  camDistance :: scalar
  mouseSensitivity :: scalar
  lastX :: scalar
  lastY :: scalar
  firstMouse :: bool
  deltaTime :: scalar
  objectPos :: vec3
  objectSpeed :: scalar
  objectRadius :: scalar
  platforms :: "Box list"
  obstacles :: "Box list"
  windowShouldClose :: bool

record key_state =
  key_escape :: bool
  key_w :: bool
  key_s :: bool
  key_a :: bool
  key_d :: bool

section \<open>Input and collision logic\<close>

text \<open>Lines 536 to 546 of \<^verbatim>\<open>processInput\<close>: the desired position from the pressed keys.\<close>

definition desiredPosition :: "key_state \<Rightarrow> sim_state \<Rightarrow> vec3" where
  "desiredPosition keys st =
     (let yawRad = radians (camYaw st);
          forward = normalize \<lparr>vx = cos yawRad, vy = 0, vz = sin yawRad\<rparr>;
          right = normalize (cross forward \<lparr>vx = 0, vy = 1, vz = 0\<rparr>);
          velocity = objectSpeed st * deltaTime st;
          d0 = objectPos st;
          d1 = (if key_w keys then vadd d0 (smul forward velocity) else d0);
          d2 = (if key_s keys then vsub d1 (smul forward velocity) else d1);
          d3 = (if key_a keys then vsub d2 (smul right velocity) else d2);
          d4 = (if key_d keys then vadd d3 (smul right velocity) else d3)
      in d4)"

text \<open>Lines 562 to 566: the height is set only when a platform top was found.\<close>

definition snapToPlatform :: "Box list \<Rightarrow> vec3 \<Rightarrow> vec3" where
  "snapToPlatform plats pos =
     (case highestPlatformTopAtXZ plats (vx pos) (vz pos) of
        Some topY \<Rightarrow> pos\<lparr>vy := topY\<rparr>
      | None \<Rightarrow> pos)"

text \<open>\<^verbatim>\<open>processInput\<close>, lines 530 to 567.\<close>

definition processInput :: "key_state \<Rightarrow> sim_state \<Rightarrow> sim_state" where
  "processInput keys st =
     (let st1 = (if key_escape keys then st\<lparr>windowShouldClose := True\<rparr> else st);
          desired = desiredPosition keys st1;
          moved = resolveHorizontalMove (obstacles st1) (objectPos st1) desired (objectRadius st1)
      in st1\<lparr>objectPos := snapToPlatform (platforms st1) moved\<rparr>)"

section \<open>Orbit camera\<close>

text \<open>\<^verbatim>\<open>mouse_callback\<close>, lines 575 to 596.\<close>

definition mouse_callback :: "scalar \<Rightarrow> scalar \<Rightarrow> sim_state \<Rightarrow> sim_state" where
  "mouse_callback xpos ypos st =
     (let st1 = (if firstMouse st then st\<lparr>lastX := xpos, lastY := ypos, firstMouse := False\<rparr>
                 else st);
          xoffset = xpos - lastX st1;
          yoffset = lastY st1 - ypos;
          st2 = st1\<lparr>lastX := xpos, lastY := ypos\<rparr>;
          xoffset' = xoffset * mouseSensitivity st2;
          yoffset' = yoffset * mouseSensitivity st2;
          st3 = st2\<lparr>camYaw := camYaw st2 + xoffset', camPitch := camPitch st2 + yoffset'\<rparr>;
          st4 = (if camPitch st3 > 89 then st3\<lparr>camPitch := 89\<rparr> else st3)
      in if camPitch st4 < - 89 then st4\<lparr>camPitch := - 89\<rparr> else st4)"

text \<open>\<^verbatim>\<open>scroll_callback\<close>, lines 598 to 602.\<close>

definition scroll_callback :: "scalar \<Rightarrow> scalar \<Rightarrow> sim_state \<Rightarrow> sim_state" where
  "scroll_callback xoffset yoffset st =
     (let d = camDistance st - yoffset * 0.4
      in st\<lparr>camDistance := std_max 1.2 (std_min 10.0 d)\<rparr>)"

text \<open>Lines 430 to 441 of the frame loop in \<^verbatim>\<open>main\<close>: the camera position and the point
  that \<^verbatim>\<open>glm::lookAt\<close> is given as its centre (line 454).\<close>

definition cameraFrame :: "sim_state \<Rightarrow> vec3 \<times> vec3" where
  "cameraFrame st =
     (let yawRad = radians (camYaw st);
          pitchRad = radians (camPitch st);
          forward = normalize \<lparr>vx = cos yawRad, vy = 0, vz = sin yawRad\<rparr>;
          heightOffset = camDistance st * sin pitchRad;
          camPos = vadd (vsub (objectPos st) (smul forward (camDistance st)))
                        \<lparr>vx = 0, vy = heightOffset, vz = 0\<rparr>;
          targetOffset = \<lparr>vx = 0, vy = 0.8, vz = 0\<rparr>;
          camTarget = vadd (objectPos st) targetOffset
      in (camPos, camTarget))"

section \<open>The maze\<close>

text \<open>The boxes that \<^verbatim>\<open>main\<close> pushes (lines 382 to 403) and the initial values of the
  globals (lines 125 to 142, 406).\<close>

definition box :: "scalar \<Rightarrow> scalar \<Rightarrow> scalar \<Rightarrow> scalar \<Rightarrow> scalar \<Rightarrow> scalar \<Rightarrow> Box" where
  "box x0 y0 z0 x1 y1 z1 =
     \<lparr>bmin = \<lparr>vx = x0, vy = y0, vz = z0\<rparr>, bmax = \<lparr>vx = x1, vy = y1, vz = z1\<rparr>\<rparr>"

definition maze_platforms :: "Box list" where
  "maze_platforms =
     [box (-20) (-0.1) (-20) 20 0 20,
      box (-12) 0.6 6 (-4) 1.6 10,
      box 6 1.1 (-8) 12 2.1 (-2)]"

definition maze_obstacles :: "Box list" where
  "maze_obstacles =
     [box (-19.5) 0 (-19.5) (-18.5) 2.5 19.5,
      box 18.5 0 (-19.5) 19.5 2.5 19.5,
      box (-19.5) 0 18.5 19.5 2.5 19.5,
      box (-19.5) 0 (-19.5) 19.5 2.5 (-18.5),
      box (-12) 0 (-12) (-11) 2.2 6,
      box (-6) 0 (-6) 6 2 (-5),
      box 5 0 (-3) 6 2 13,
      box (-2) 0 2 10 2 3,
      box (-10) 0 7.5 (-0.5) 2.2 8.5,
      box (-4) 0 4 (-3) 2 14,
      box 2 0 10 4 1.6 12,
      box (-8) 0 (-3) (-6.5) 1.6 (-1)]"

definition initial_state :: sim_state where
  "initial_state =
     \<lparr>camYaw = - 90, camPitch = 12, camDistance = 3, mouseSensitivity = 0.12,
      lastX = 400, lastY = 300, firstMouse = True, deltaTime = 0,
      objectPos = \<lparr>vx = - 17, vy = 0, vz = - 17\<rparr>, objectSpeed = 4, objectRadius = 0.5,
      platforms = maze_platforms, obstacles = maze_obstacles, windowShouldClose = False\<rparr>"

section \<open>Notions of the specification\<close>

text \<open>The closest point of a box to a centre, by clamping each coordinate into
  \<open>[min, max]\<close>, the squared Euclidean distance, and membership of a point in a box.\<close>

definition clampInto :: "scalar \<Rightarrow> scalar \<Rightarrow> scalar \<Rightarrow> scalar" where
  "clampInto lo hi c = max lo (min c hi)"

definition closestPoint :: "vec3 \<Rightarrow> Box \<Rightarrow> vec3" where
  "closestPoint c b =
     \<lparr>vx = clampInto (vx (bmin b)) (vx (bmax b)) (vx c),
      vy = clampInto (vy (bmin b)) (vy (bmax b)) (vy c),
      vz = clampInto (vz (bmin b)) (vz (bmax b)) (vz c)\<rparr>"

definition distSq :: "vec3 \<Rightarrow> vec3 \<Rightarrow> scalar" where
  "distSq p q = (vx p - vx q)\<^sup>2 + (vy p - vy q)\<^sup>2 + (vz p - vz q)\<^sup>2"

definition inBox :: "vec3 \<Rightarrow> Box \<Rightarrow> bool" where
  "inBox q b \<longleftrightarrow>
     vx (bmin b) \<le> vx q \<and> vx q \<le> vx (bmax b) \<and>
     vy (bmin b) \<le> vy q \<and> vy q \<le> vy (bmax b) \<and>
     vz (bmin b) \<le> vz q \<and> vz q \<le> vz (bmax b)"

text \<open>The squared distance as the overlap test computes it, in binary32; a real number
  that binary32 represents; and a test in which no operation rounds.\<close>

definition distSq32 :: "vec3 \<Rightarrow> vec3 \<Rightarrow> f32" where
  "distSq32 c q =
     (let dx = f32_sub (Fin (vx q)) (Fin (vx c));
          dy = f32_sub (Fin (vy q)) (Fin (vy c));
          dz = f32_sub (Fin (vz q)) (Fin (vz c))
      in f32_add (f32_add (f32_mul dx dx) (f32_mul dy dy)) (f32_mul dz dz))"

definition exact32 :: "scalar \<Rightarrow> bool" where
  "exact32 a \<longleftrightarrow> round32 a = Fin a"

definition roundingFree :: "vec3 \<Rightarrow> scalar \<Rightarrow> vec3 \<Rightarrow> bool" where
  "roundingFree c r q \<longleftrightarrow>
     exact32 (vx q - vx c) \<and> exact32 (vy q - vy c) \<and> exact32 (vz q - vz c) \<and>
     exact32 ((vx q - vx c) * (vx q - vx c)) \<and> exact32 ((vy q - vy c) * (vy q - vy c)) \<and>
     exact32 ((vz q - vz c) * (vz q - vz c)) \<and>
     exact32 ((vx q - vx c) * (vx q - vx c) + (vy q - vy c) * (vy q - vy c)) \<and>
     exact32 ((vx q - vx c) * (vx q - vx c) + (vy q - vy c) * (vy q - vy c)
              + (vz q - vz c) * (vz q - vz c)) \<and>
     exact32 (r * r)"

text \<open>A platform's horizontal span contains \<open>(x, z)\<close>, bounds included.\<close>

definition containsXZ :: "Box \<Rightarrow> scalar \<Rightarrow> scalar \<Rightarrow> bool" where
  "containsXZ p x z \<longleftrightarrow>
     vx (bmin p) \<le> x \<and> x \<le> vx (bmax p) \<and> vz (bmin p) \<le> z \<and> z \<le> vz (bmax p)"


text \<open>The two single-axis candidates as the specification describes them, both taken
  from the position before the move.\<close>

definition candidateX :: "vec3 \<Rightarrow> vec3 \<Rightarrow> vec3" where
  "candidateX pos desired = pos\<lparr>vx := vx desired\<rparr>"

definition candidateZ :: "vec3 \<Rightarrow> vec3 \<Rightarrow> vec3" where
  "candidateZ pos desired = pos\<lparr>vz := vz desired\<rparr>"

section \<open>Properties of binary32 rounding\<close>

lemma pow2_powi: "pow2 k = 2 powi k"
  by (simp add: pow2_def power_int_def power_one_over inverse_eq_divide)

lemma expo_up_le: "1 \<le> a \<Longrightarrow> 2 powi (expo_up n a) \<le> a"
proof (induction n arbitrary: a)
  case 0
  then show ?case by simp
next
  case (Suc n)
  show ?case
  proof (cases "a < 2")
    case True
    with Suc.prems show ?thesis by simp
  next
    case False
    then have "1 \<le> a / 2" by simp
    from Suc.IH [OF this] have "2 powi (expo_up n (a / 2)) * 2 \<le> a" by simp
    with False show ?thesis by (simp add: power_int_add)
  qed
qed

lemma expo_down_le:
  "0 < a \<Longrightarrow> 2 powi (expo_down n a) \<le> a \<or> expo_down n a = - int n"
proof (induction n arbitrary: a)
  case 0
  then show ?case by simp
next
  case (Suc n)
  show ?case
  proof (cases "1 \<le> a")
    case True
    then show ?thesis by simp
  next
    case False
    from Suc.prems have "0 < a * 2" by simp
    from Suc.IH [OF this] False show ?thesis
      by (auto simp: power_int_diff)
  qed
qed

lemma expo32_le: "0 < a \<Longrightarrow> 2 powi (expo32 a) \<le> a \<or> expo32 a = - 126"
  using expo_up_le [of a 128] expo_down_le [of a 126]
  by (auto simp: expo32_def)

lemma round_even_of_int: "round_even (of_int n) = n"
  by (simp add: round_even_def)

lemma round32_zero: "round32 0 = Fin 0"
  by (simp add: round32_def round_even_def Let_def)

lemma round32_exact:
  assumes x: "x = of_int m * 2 powi k" and m: "\<bar>m\<bar> < 2 ^ 24" and k: "- 149 \<le> k" "k \<le> 104"
  shows "round32 x = Fin x"
proof (cases "x = 0")
  case True
  then show ?thesis by (simp add: round32_zero)
next
  case False
  define e where "e = expo32 \<bar>x\<bar>"
  from m have m': "\<bar>of_int m :: real\<bar> < 2 ^ 24"
    by (metis of_int_abs of_int_less_numeral_power_cancel_iff)
  have e_le: "e \<le> k + 23"
  proof -
    from False have "0 < \<bar>x\<bar>" by simp
    from expo32_le [OF this] show ?thesis
    proof
      assume "expo32 \<bar>x\<bar> = - 126"
      with k show ?thesis by (simp add: e_def)
    next
      assume "2 powi expo32 \<bar>x\<bar> \<le> \<bar>x\<bar>"
      then have "(2::real) powi e \<le> \<bar>of_int m\<bar> * 2 powi k"
        by (simp add: e_def x abs_mult)
      also have "\<dots> < 2 ^ 24 * 2 powi k"
        using m' by simp
      also have "\<dots> = 2 powi (k + 24)"
        by (simp add: power_int_add)
      finally have "(2::real) powi e < 2 powi (k + 24)" .
      then have "e < k + 24"
        using power_int_increasing [of "k + 24" e "2::real"] by (cases "e < k + 24") auto
      then show ?thesis by simp
    qed
  qed
  define j where "j = nat (k + 23 - e)"
  have split: "(2::real) powi k = 2 ^ j * 2 powi (e - 23)"
  proof -
    have "k = int j + (e - 23)" using e_le by (simp add: j_def)
    moreover have "(2::real) powi (int j + (e - 23)) = 2 powi (int j) * 2 powi (e - 23)"
      by (rule power_int_add) simp
    ultimately show ?thesis by simp
  qed
  have q: "x / 2 powi (e - 23) = of_int (m * 2 ^ j)"
    by (simp add: x split)
  have "round_even (x / 2 powi (e - 23)) = m * 2 ^ j"
    unfolding q by (rule round_even_of_int)
  then have v: "of_int (round_even (x / 2 powi (e - 23))) * 2 powi (e - 23) = x"
    by (simp add: x split)
  have "\<bar>x\<bar> < 2 ^ 128"
  proof -
    have "(2::real) powi k \<le> 2 powi 104"
      using k by (intro power_int_increasing) simp_all
    with m' have "\<bar>of_int m :: real\<bar> * 2 powi k < 2 ^ 24 * 2 powi 104"
      by (intro mult_less_le_imp_less) simp_all
    then show ?thesis by (simp add: x abs_mult)
  qed
  then show ?thesis
    by (simp add: round32_def Let_def pow2_powi e_def [symmetric] v)
qed

lemma round32_grid:
  assumes "of_int \<lfloor>x * 64\<rfloor> = x * 64" and "\<bar>x\<bar> < 262144"
  shows "round32 x = Fin x"
proof (rule round32_exact)
  have p: "(2::real) powi (- 6) = 1 / 64"
    by (simp add: power_int_minus inverse_eq_divide)
  show "x = of_int \<lfloor>x * 64\<rfloor> * 2 powi (- 6)"
    unfolding p using assms(1) by linarith
  have "\<bar>x * 64\<bar> < 2 ^ 24" using assms(2) by simp
  then have "\<bar>of_int \<lfloor>x * 64\<rfloor> :: real\<bar> < 2 ^ 24" by (simp only: assms(1))
  then show "\<bar>\<lfloor>x * 64\<rfloor>\<bar> < 2 ^ 24"
    by (metis of_int_abs of_int_less_numeral_power_cancel_iff)
qed simp_all

section \<open>Properties of the collision tests\<close>

lemma std_max_eq: "std_max a b = max a b"
  by (simp add: std_max_def max_def)

lemma std_min_eq: "std_min a b = min a b"
  by (simp add: std_min_def min_def)

lemma collidesWithAnyObstacle_iff:
  "collidesWithAnyObstacle obs c r \<longleftrightarrow> (\<exists>b \<in> set obs. sphereIntersectsAABB c r b)"
  by (induction obs) auto

lemma clampInto_nearest:
  assumes "lo \<le> q" "q \<le> hi"
  shows "(c - clampInto lo hi c)\<^sup>2 \<le> (c - q)\<^sup>2"
proof -
  have "\<bar>c - clampInto lo hi c\<bar> \<le> \<bar>c - q\<bar>"
    using assms by (simp add: clampInto_def max_def min_def)
  then show ?thesis by (simp only: abs_le_square_iff)
qed

lemma closestPoint_inBox: "inBox q b \<Longrightarrow> inBox (closestPoint c b) b"
  by (simp add: inBox_def closestPoint_def clampInto_def)

lemma closestPoint_nearest:
  assumes "inBox q b"
  shows "distSq c (closestPoint c b) \<le> distSq c q"
proof -
  from assms have
    "(vx c - vx (closestPoint c b))\<^sup>2 \<le> (vx c - vx q)\<^sup>2"
    "(vy c - vy (closestPoint c b))\<^sup>2 \<le> (vy c - vy q)\<^sup>2"
    "(vz c - vz (closestPoint c b))\<^sup>2 \<le> (vz c - vz q)\<^sup>2"
    by (simp_all add: inBox_def closestPoint_def clampInto_nearest)
  then show ?thesis unfolding distSq_def by linarith
qed

text \<open>The test compares the binary32 squared distance to the clamped point with the
  binary32 square of the radius; without rounding both are the exact values.\<close>

lemma sphereIntersectsAABB_distSq32:
  "sphereIntersectsAABB c r b \<longleftrightarrow>
     f32_less (distSq32 c (closestPoint c b)) (f32_mul (Fin r) (Fin r))"
  by (simp add: sphereIntersectsAABB_def distSq32_def closestPoint_def clampInto_def Let_def
      std_max_def std_min_def max_def min_def)

lemma distSq_alt:
  "distSq c q = (vx q - vx c) * (vx q - vx c) + (vy q - vy c) * (vy q - vy c)
     + (vz q - vz c) * (vz q - vz c)"
  by (simp add: distSq_def power2_eq_square algebra_simps)

lemma distSq32_exact:
  assumes "roundingFree c r q"
  shows "distSq32 c q = Fin (distSq c q)" and "round32 (r * r) = Fin (r * r)"
  using assms by (simp_all add: roundingFree_def exact32_def distSq32_def distSq_alt Let_def)

lemma sphereIntersectsAABB_exact:
  assumes "roundingFree c r (closestPoint c b)"
  shows "sphereIntersectsAABB c r b \<longleftrightarrow> distSq c (closestPoint c b) < r\<^sup>2"
  by (simp add: sphereIntersectsAABB_distSq32 distSq32_exact [OF assms] power2_eq_square)

text \<open>Unfolding the overlap test on a concrete scene whose coordinates are multiples of
  \<open>1/64\<close>: every operation is exact there.\<close>

lemmas maze_eval =
  maze_obstacles_def box_def sphereIntersectsAABB_def Let_def std_max_def std_min_def
  round32_grid

text \<open>Rounding can also hide an overlap. With the radius \<open>0.5\<close> of the actor and the
  last inner wall of the maze, the binary32 centre nearest to \<open>(-6.1104326, 0, -0.68657178)\<close>
  lies at a squared distance just below \<open>0.25\<close> from the corner of the wall; the code
  computes \<open>distSq = 0.25\<close> and reports no collision.\<close>

lemma sphereIntersectsAABB_misses_overlap:
  "distSq \<lparr>vx = - (6407253 / 1048576), vy = 0, vz = - (11518763 / 16777216)\<rparr>
      (closestPoint \<lparr>vx = - (6407253 / 1048576), vy = 0, vz = - (11518763 / 16777216)\<rparr>
         (box (- 8) 0 (- 3) (- 6.5) 1.6 (- 1))) < (1 / 2)\<^sup>2
   \<and> \<not> sphereIntersectsAABB
        \<lparr>vx = - (6407253 / 1048576), vy = 0, vz = - (11518763 / 16777216)\<rparr> (1 / 2)
        (box (- 8) 0 (- 3) (- 6.5) 1.6 (- 1))"
proof -
  have sub: "round32 (- (408491 / 1048576)) = Fin (- (408491 / 1048576))"
    "round32 (- (5258453 / 16777216)) = Fin (- (5258453 / 16777216))"
    by code_simp+
  have mul: "round32 (408491 / 1048576 * (408491 / 1048576)) = Fin (10184625 / 67108864)"
    "round32 (5258453 / 16777216 * (5258453 / 16777216)) = Fin (13185181 / 134217728)"
    by code_simp+
  have add: "round32 (10184625 / 67108864) = Fin (10184625 / 67108864)"
    "round32 (10184625 / 67108864 + 13185181 / 134217728) = Fin (1 / 4)"
    by code_simp+
  have "\<not> sphereIntersectsAABB
        \<lparr>vx = - (6407253 / 1048576), vy = 0, vz = - (11518763 / 16777216)\<rparr> (1 / 2)
        (box (- 8) 0 (- 3) (- 6.5) 1.6 (- 1))"
    using sub mul add
    by (simp add: sphereIntersectsAABB_def box_def Let_def std_max_def std_min_def
        round32_zero round32_grid)
  moreover have
    "distSq \<lparr>vx = - (6407253 / 1048576), vy = 0, vz = - (11518763 / 16777216)\<rparr>
      (closestPoint \<lparr>vx = - (6407253 / 1048576), vy = 0, vz = - (11518763 / 16777216)\<rparr>
         (box (- 8) 0 (- 3) (- 6.5) 1.6 (- 1))) < (1 / 2)\<^sup>2"
    by (simp add: distSq_def closestPoint_def clampInto_def box_def power2_eq_square)
  ultimately show ?thesis by blast
qed

text \<open>
  Claim C2, as it stands, fails: the squared distance and the squared radius are rounded
  to binary32, and the rounded values can compare differently from the exact ones. The
  sphere of radius \<open>5 * (1 + 2\<^sup>-\<^sup>1\<^sup>2)\<close> centred at \<open>(3 * (1 + 2\<^sup>-\<^sup>1\<^sup>2), 4 * (1 + 2\<^sup>-\<^sup>1\<^sup>2), 0)\<close> is
  exactly tangent to the box \<open>{(-1, -1, -1), (0, 0, 0)}\<close>, whose closest point is the
  origin. The code computes \<open>distSq = 51225/2048\<close> and \<open>radius * radius = 13113601/524288\<close>,
  which is larger, and reports a collision.
\<close>

theorem sphereIntersectsAABB_tangent_collides:
  "distSq \<lparr>vx = 12291 / 4096, vy = 4097 / 1024, vz = 0\<rparr>
      (closestPoint \<lparr>vx = 12291 / 4096, vy = 4097 / 1024, vz = 0\<rparr> (box (- 1) (- 1) (- 1) 0 0 0))
     = (20485 / 4096)\<^sup>2
   \<and> sphereIntersectsAABB \<lparr>vx = 12291 / 4096, vy = 4097 / 1024, vz = 0\<rparr> (20485 / 4096)
        (box (- 1) (- 1) (- 1) 0 0 0)"
proof -
  have sub: "round32 (- (12291 / 4096)) = Fin (- (12291 / 4096))"
    "round32 (- (4097 / 1024)) = Fin (- (4097 / 1024))"
    by code_simp+
  have mul: "round32 (12291 / 4096 * (12291 / 4096)) = Fin (9441793 / 1048576)"
    "round32 (4097 / 1024 * (4097 / 1024)) = Fin (2049 / 128)"
    "round32 (20485 / 4096 * (20485 / 4096)) = Fin (13113601 / 524288)"
    by code_simp+
  have add: "round32 (9441793 / 1048576 + 2049 / 128) = Fin (51225 / 2048)"
    "round32 (51225 / 2048) = Fin (51225 / 2048)"
    by code_simp+
  have "sphereIntersectsAABB \<lparr>vx = 12291 / 4096, vy = 4097 / 1024, vz = 0\<rparr> (20485 / 4096)
        (box (- 1) (- 1) (- 1) 0 0 0)"
    using sub mul add
    by (simp add: sphereIntersectsAABB_def box_def Let_def std_max_def std_min_def round32_zero)
  moreover have "distSq \<lparr>vx = 12291 / 4096, vy = 4097 / 1024, vz = 0\<rparr>
      (closestPoint \<lparr>vx = 12291 / 4096, vy = 4097 / 1024, vz = 0\<rparr> (box (- 1) (- 1) (- 1) 0 0 0))
     = (20485 / 4096)\<^sup>2"
    by (simp add: distSq_def closestPoint_def clampInto_def box_def power2_eq_square)
  ultimately show ?thesis by blast
qed

text \<open>
  Claim C2, amended. The point obtained by clamping each coordinate of the centre into
  the box is a point of the box and no point of the box is nearer to the centre. For
  every box, centre and radius, \<open>sphereIntersectsAABB\<close> holds exactly when the squared
  distance from the centre to that point, computed in binary32 with every difference,
  product and sum rounded, is strictly below the square of the radius computed in
  binary32. When none of these operations rounds, this is the exact comparison of the
  squared Euclidean distance with the squared radius, and a sphere at distance exactly
  \<open>r\<close> does not collide.
\<close>

theorem sphereIntersectsAABB_binary32:
  "(inBox q b \<longrightarrow> inBox (closestPoint c b) b \<and> distSq c (closestPoint c b) \<le> distSq c q)
   \<and> (sphereIntersectsAABB c r b \<longleftrightarrow>
        f32_less (distSq32 c (closestPoint c b)) (f32_mul (Fin r) (Fin r)))
   \<and> (roundingFree c r (closestPoint c b) \<longrightarrow>
        (sphereIntersectsAABB c r b \<longleftrightarrow> distSq c (closestPoint c b) < r\<^sup>2)
        \<and> (distSq c (closestPoint c b) = r\<^sup>2 \<longrightarrow> \<not> sphereIntersectsAABB c r b))"
proof (intro conjI impI)
  assume "inBox q b"
  then show "inBox (closestPoint c b) b" and "distSq c (closestPoint c b) \<le> distSq c q"
    by (simp_all add: closestPoint_inBox closestPoint_nearest)
next
  show "sphereIntersectsAABB c r b \<longleftrightarrow>
        f32_less (distSq32 c (closestPoint c b)) (f32_mul (Fin r) (Fin r))"
    by (rule sphereIntersectsAABB_distSq32)
next
  assume free: "roundingFree c r (closestPoint c b)"
  then show "sphereIntersectsAABB c r b \<longleftrightarrow> distSq c (closestPoint c b) < r\<^sup>2"
    by (rule sphereIntersectsAABB_exact)
  assume "distSq c (closestPoint c b) = r\<^sup>2"
  with free show "\<not> sphereIntersectsAABB c r b"
    by (simp add: sphereIntersectsAABB_exact)
qed

theorem sphereIntersectsAABB_binary32_witness:
  "inBox \<lparr>vx = 1, vy = 1, vz = 0\<rparr> (box 0 0 0 1 1 1)
   \<and> roundingFree \<lparr>vx = 2, vy = 1/2, vz = 1/2\<rparr> 1
        (closestPoint \<lparr>vx = 2, vy = 1/2, vz = 1/2\<rparr> (box 0 0 0 1 1 1))
   \<and> distSq \<lparr>vx = 2, vy = 1/2, vz = 1/2\<rparr>
        (closestPoint \<lparr>vx = 2, vy = 1/2, vz = 1/2\<rparr> (box 0 0 0 1 1 1)) = 1\<^sup>2
   \<and> \<not> sphereIntersectsAABB \<lparr>vx = 2, vy = 1/2, vz = 1/2\<rparr> 1 (box 0 0 0 1 1 1)
   \<and> inBox (closestPoint \<lparr>vx = 2, vy = 1/2, vz = 1/2\<rparr> (box 0 0 0 1 1 1)) (box 0 0 0 1 1 1)
   \<and> distSq \<lparr>vx = 2, vy = 1/2, vz = 1/2\<rparr>
        (closestPoint \<lparr>vx = 2, vy = 1/2, vz = 1/2\<rparr> (box 0 0 0 1 1 1))
       \<le> distSq \<lparr>vx = 2, vy = 1/2, vz = 1/2\<rparr> \<lparr>vx = 1, vy = 1, vz = 0\<rparr>"
proof -
  let ?c = "\<lparr>vx = 2, vy = 1/2, vz = 1/2\<rparr>"
  let ?b = "box 0 0 0 1 1 1"
  have q: "inBox \<lparr>vx = 1, vy = 1, vz = 0\<rparr> ?b"
    by (simp add: inBox_def box_def)
  have free: "roundingFree ?c 1 (closestPoint ?c ?b)"
    by (simp add: roundingFree_def exact32_def closestPoint_def clampInto_def box_def
        round32_grid round32_zero)
  have d: "distSq ?c (closestPoint ?c ?b) = 1\<^sup>2"
    by (simp add: distSq_def closestPoint_def clampInto_def box_def)
  note main = sphereIntersectsAABB_binary32 [where c = ?c and r = 1 and b = ?b
      and q = "\<lparr>vx = 1, vy = 1, vz = 0\<rparr>"]
  from main q have "inBox (closestPoint ?c ?b) ?b"
    and "distSq ?c (closestPoint ?c ?b) \<le> distSq ?c \<lparr>vx = 1, vy = 1, vz = 0\<rparr>"
    by blast+
  moreover from main free d have "\<not> sphereIntersectsAABB ?c 1 ?b"
    by blast
  ultimately show ?thesis using q free d by blast
qed

section \<open>Properties of the horizontal move\<close>

lemma tryZ_is_desired: "(p::vec3)\<lparr>vx := vx d, vz := vz d\<rparr> = d\<lparr>vy := vy p\<rparr>"
  by (rule vec3.equality) simp_all

lemma resolveHorizontalMove_free:
  "\<not> collidesWithAnyObstacle obs (d\<lparr>vy := vy p\<rparr>) r \<Longrightarrow>
     resolveHorizontalMove obs p d r = d\<lparr>vy := vy p\<rparr>"
  by (simp add: resolveHorizontalMove_def)

text \<open>A blocked move takes the X-only candidate when it is free; only when it is not can
  the Z-only candidate be taken: after the X step \<^verbatim>\<open>tryZ\<close> is the full desired position.\<close>

lemma resolveHorizontalMove_blocked:
  assumes "collidesWithAnyObstacle obs (d\<lparr>vy := vy p\<rparr>) r"
  shows "resolveHorizontalMove obs p d r =
     (if \<not> collidesWithAnyObstacle obs (candidateX p d) r then candidateX p d
      else if \<not> collidesWithAnyObstacle obs (candidateZ p d) r then candidateZ p d
      else p)"
proof (cases "collidesWithAnyObstacle obs (candidateX p d) r")
  case True
  with assms show ?thesis
    by (simp add: resolveHorizontalMove_def candidateX_def candidateZ_def Let_def)
next
  case False
  with assms show ?thesis
    by (simp add: resolveHorizontalMove_def candidateX_def candidateZ_def Let_def
        tryZ_is_desired)
qed

lemma resolveHorizontalMove_same: "resolveHorizontalMove obs p p r = p"
  by (simp add: resolveHorizontalMove_def Let_def)

lemma resolveHorizontalMove_vy: "vy (resolveHorizontalMove obs p d r) = vy p"
  by (simp add: resolveHorizontalMove_def Let_def)

text \<open>Positions of the maze used as concrete inputs below: the start \<open>(-17, 0, -17)\<close>
  beside the two boundary walls, and a point beside the corner \<open>(-6.5, -1)\<close> of the last
  inner wall.\<close>

lemma maze_start_free:
  "\<not> collidesWithAnyObstacle maze_obstacles \<lparr>vx = - 17, vy = 0, vz = - 17\<rparr> 0.5"
  by (simp add: maze_eval)

lemma maze_wall_tests:
  "collidesWithAnyObstacle maze_obstacles \<lparr>vx = - 16.75, vy = 0, vz = - 18.25\<rparr> 0.5"
  "\<not> collidesWithAnyObstacle maze_obstacles \<lparr>vx = - 16.75, vy = 0, vz = - 17\<rparr> 0.5"
  by (simp_all add: maze_eval)

lemma maze_slide_x:
  "resolveHorizontalMove maze_obstacles \<lparr>vx = - 17, vy = 0, vz = - 17\<rparr>
     \<lparr>vx = - 16.75, vy = 3, vz = - 18.25\<rparr> 0.5 = \<lparr>vx = - 16.75, vy = 0, vz = - 17\<rparr>"
  using maze_wall_tests by (simp add: resolveHorizontalMove_def Let_def)

lemma maze_corner_tests:
  "\<not> collidesWithAnyObstacle maze_obstacles \<lparr>vx = - 6, vy = 0, vz = - 0.5\<rparr> 0.5"
  "collidesWithAnyObstacle maze_obstacles \<lparr>vx = - 6.25, vy = 0, vz = - 0.75\<rparr> 0.5"
  "\<not> collidesWithAnyObstacle maze_obstacles \<lparr>vx = - 6.25, vy = 0, vz = - 0.5\<rparr> 0.5"
  "\<not> collidesWithAnyObstacle maze_obstacles \<lparr>vx = - 6, vy = 0, vz = - 0.75\<rparr> 0.5"
  by (simp_all add: maze_eval)

lemma maze_corner_move:
  "resolveHorizontalMove maze_obstacles \<lparr>vx = - 6, vy = 0, vz = - 0.5\<rparr>
     \<lparr>vx = - 6.25, vy = 0, vz = - 0.75\<rparr> 0.5 = \<lparr>vx = - 6.25, vy = 0, vz = - 0.5\<rparr>"
  using maze_corner_tests by (simp add: resolveHorizontalMove_def Let_def)

text \<open>
  Claim C1. From a starting position that collides with no obstacle, one horizontal-move
  resolution step (the full desired move when it is free, axis-separated sliding
  otherwise) ends in a position that collides with no obstacle. A candidate is blocked
  exactly when its sphere overlaps at least one box of the obstacle list, whatever the
  order of the list, and the full desired move is taken when it is not blocked.
\<close>

theorem resolveHorizontalMove_stays_free:
  "(\<not> collidesWithAnyObstacle obs p r \<longrightarrow>
      \<not> collidesWithAnyObstacle obs (resolveHorizontalMove obs p d r) r)
   \<and> (collidesWithAnyObstacle obs c r \<longleftrightarrow> (\<exists>b \<in> set obs. sphereIntersectsAABB c r b))
   \<and> (set obs' = set obs \<longrightarrow>
        collidesWithAnyObstacle obs' c r = collidesWithAnyObstacle obs c r)
   \<and> (\<not> collidesWithAnyObstacle obs (d\<lparr>vy := vy p\<rparr>) r \<longrightarrow>
        resolveHorizontalMove obs p d r = d\<lparr>vy := vy p\<rparr>)"
proof (intro conjI impI)
  assume free: "\<not> collidesWithAnyObstacle obs p r"
  show "\<not> collidesWithAnyObstacle obs (resolveHorizontalMove obs p d r) r"
  proof (cases "collidesWithAnyObstacle obs (d\<lparr>vy := vy p\<rparr>) r")
    case True
    then show ?thesis using free by (simp add: resolveHorizontalMove_blocked)
  next
    case False
    then show ?thesis by (simp add: resolveHorizontalMove_free)
  qed
next
  show "collidesWithAnyObstacle obs c r \<longleftrightarrow> (\<exists>b \<in> set obs. sphereIntersectsAABB c r b)"
    by (rule collidesWithAnyObstacle_iff)
next
  assume "set obs' = set obs"
  then show "collidesWithAnyObstacle obs' c r = collidesWithAnyObstacle obs c r"
    by (simp add: collidesWithAnyObstacle_iff)
next
  assume "\<not> collidesWithAnyObstacle obs (d\<lparr>vy := vy p\<rparr>) r"
  then show "resolveHorizontalMove obs p d r = d\<lparr>vy := vy p\<rparr>"
    by (rule resolveHorizontalMove_free)
qed

theorem resolveHorizontalMove_stays_free_witness:
  "\<not> collidesWithAnyObstacle maze_obstacles \<lparr>vx = - 6, vy = 0, vz = - 0.5\<rparr> 0.5
   \<and> resolveHorizontalMove maze_obstacles \<lparr>vx = - 6, vy = 0, vz = - 0.5\<rparr>
        \<lparr>vx = - 6.25, vy = 0, vz = - 0.75\<rparr> 0.5 = \<lparr>vx = - 6.25, vy = 0, vz = - 0.5\<rparr>
   \<and> \<not> collidesWithAnyObstacle maze_obstacles
        (resolveHorizontalMove maze_obstacles \<lparr>vx = - 6, vy = 0, vz = - 0.5\<rparr>
           \<lparr>vx = - 6.25, vy = 0, vz = - 0.75\<rparr> 0.5) 0.5
   \<and> set (rev maze_obstacles) = set maze_obstacles
   \<and> collidesWithAnyObstacle (rev maze_obstacles) \<lparr>vx = - 6.25, vy = 0, vz = - 0.75\<rparr> 0.5
   \<and> \<not> collidesWithAnyObstacle maze_obstacles (\<lparr>vx = - 5, vy = 9, vz = 0\<rparr>\<lparr>vy := 0\<rparr>) 0.5
   \<and> resolveHorizontalMove maze_obstacles \<lparr>vx = - 6, vy = 0, vz = - 0.5\<rparr>
        \<lparr>vx = - 5, vy = 9, vz = 0\<rparr> 0.5 = \<lparr>vx = - 5, vy = 0, vz = 0\<rparr>"
proof -
  have free: "\<not> collidesWithAnyObstacle maze_obstacles (\<lparr>vx = - 5, vy = 9, vz = 0\<rparr>\<lparr>vy := 0\<rparr>) 0.5"
    by (simp add: maze_eval)
  have rev: "set (rev maze_obstacles) = set maze_obstacles"
    by simp
  note main = resolveHorizontalMove_stays_free
  have a: "\<not> collidesWithAnyObstacle maze_obstacles
        (resolveHorizontalMove maze_obstacles \<lparr>vx = - 6, vy = 0, vz = - 0.5\<rparr>
           \<lparr>vx = - 6.25, vy = 0, vz = - 0.75\<rparr> 0.5) 0.5"
    and b: "collidesWithAnyObstacle (rev maze_obstacles) \<lparr>vx = - 6.25, vy = 0, vz = - 0.75\<rparr> 0.5"
    using main [where obs = maze_obstacles and r = "0.5" and obs' = "rev maze_obstacles"
        and p = "\<lparr>vx = - 6, vy = 0, vz = - 0.5\<rparr>"
        and d = "\<lparr>vx = - 6.25, vy = 0, vz = - 0.75\<rparr>"
        and c = "\<lparr>vx = - 6.25, vy = 0, vz = - 0.75\<rparr>"]
      maze_corner_tests(1,2) rev by blast+
  have c: "resolveHorizontalMove maze_obstacles \<lparr>vx = - 6, vy = 0, vz = - 0.5\<rparr>
        \<lparr>vx = - 5, vy = 9, vz = 0\<rparr> 0.5 = \<lparr>vx = - 5, vy = 0, vz = 0\<rparr>"
    using main [where obs = maze_obstacles and r = "0.5"
        and p = "\<lparr>vx = - 6, vy = 0, vz = - 0.5\<rparr>" and d = "\<lparr>vx = - 5, vy = 9, vz = 0\<rparr>"]
      free by simp
  show ?thesis
    using maze_corner_tests(1) maze_corner_move a b c rev free by blast
qed

text \<open>
  Claim C3, as it stands, fails: the Z-only candidate is not taken from the position
  before the move. In the maze, at \<open>(-6, 0, -0.5)\<close> with radius \<open>0.5\<close> and the desired
  position \<open>(-6.25, 0, -0.75)\<close>, the full move is blocked by the corner of an inner wall and
  both single-axis candidates of the specification are free, yet the Z coordinate keeps
  its prior value.
\<close>

theorem sliding_not_independent:
  "collidesWithAnyObstacle maze_obstacles (\<lparr>vx = - 6.25, vy = 0, vz = - 0.75\<rparr>\<lparr>vy := 0\<rparr>) 0.5
   \<and> \<not> collidesWithAnyObstacle maze_obstacles
        (candidateX \<lparr>vx = - 6, vy = 0, vz = - 0.5\<rparr> \<lparr>vx = - 6.25, vy = 0, vz = - 0.75\<rparr>) 0.5
   \<and> \<not> collidesWithAnyObstacle maze_obstacles
        (candidateZ \<lparr>vx = - 6, vy = 0, vz = - 0.5\<rparr> \<lparr>vx = - 6.25, vy = 0, vz = - 0.75\<rparr>) 0.5
   \<and> vz (resolveHorizontalMove maze_obstacles \<lparr>vx = - 6, vy = 0, vz = - 0.5\<rparr>
        \<lparr>vx = - 6.25, vy = 0, vz = - 0.75\<rparr> 0.5) = - 0.5
   \<and> vz (resolveHorizontalMove maze_obstacles \<lparr>vx = - 6, vy = 0, vz = - 0.5\<rparr>
        \<lparr>vx = - 6.25, vy = 0, vz = - 0.75\<rparr> 0.5) \<noteq> vz \<lparr>vx = - 6.25, vy = 0, vz = - 0.75\<rparr>"
  using maze_corner_tests maze_corner_move
  by (simp add: candidateX_def candidateZ_def)

text \<open>
  Claim C3, amended. When the full desired displacement is blocked, the X-only candidate
  (desired X, current Z) is tested first and the X movement is applied exactly when that
  candidate does not collide. The Z-only candidate is built from the position after the X
  step, so it keeps the pre-move X only when the X movement was not applied; the Z movement
  is applied exactly when the X-only candidate collides and the Z-only candidate (pre-move
  X) does not. In particular, if the full move collides and the X-only candidate does not,
  the resolved X is the desired X and the resolved Z is the prior Z.
\<close>

theorem sliding_sequential:
  "collidesWithAnyObstacle obs (d\<lparr>vy := vy p\<rparr>) r \<longrightarrow>
     vx (resolveHorizontalMove obs p d r) =
       (if \<not> collidesWithAnyObstacle obs (candidateX p d) r then vx d else vx p)
     \<and> vz (resolveHorizontalMove obs p d r) =
       (if collidesWithAnyObstacle obs (candidateX p d) r
           \<and> \<not> collidesWithAnyObstacle obs (candidateZ p d) r then vz d else vz p)
     \<and> (\<not> collidesWithAnyObstacle obs (candidateX p d) r \<longrightarrow>
          vx (resolveHorizontalMove obs p d r) = vx d
          \<and> vz (resolveHorizontalMove obs p d r) = vz p)"
  by (simp add: resolveHorizontalMove_blocked candidateX_def candidateZ_def)

theorem sliding_sequential_witness:
  "collidesWithAnyObstacle maze_obstacles (\<lparr>vx = - 16.75, vy = 3, vz = - 18.25\<rparr>\<lparr>vy := 0\<rparr>) 0.5
   \<and> \<not> collidesWithAnyObstacle maze_obstacles
        (candidateX \<lparr>vx = - 17, vy = 0, vz = - 17\<rparr> \<lparr>vx = - 16.75, vy = 3, vz = - 18.25\<rparr>) 0.5
   \<and> vx (resolveHorizontalMove maze_obstacles \<lparr>vx = - 17, vy = 0, vz = - 17\<rparr>
        \<lparr>vx = - 16.75, vy = 3, vz = - 18.25\<rparr> 0.5) = - 16.75
   \<and> vz (resolveHorizontalMove maze_obstacles \<lparr>vx = - 17, vy = 0, vz = - 17\<rparr>
        \<lparr>vx = - 16.75, vy = 3, vz = - 18.25\<rparr> 0.5) = - 17"
proof -
  have blocked:
    "collidesWithAnyObstacle maze_obstacles (\<lparr>vx = - 16.75, vy = 3, vz = - 18.25\<rparr>\<lparr>vy := 0\<rparr>) 0.5"
    by (simp add: maze_eval)
  have freeX: "\<not> collidesWithAnyObstacle maze_obstacles
        (candidateX \<lparr>vx = - 17, vy = 0, vz = - 17\<rparr> \<lparr>vx = - 16.75, vy = 3, vz = - 18.25\<rparr>) 0.5"
    by (simp add: candidateX_def maze_eval)
  from sliding_sequential [where obs = maze_obstacles and r = "0.5"
      and p = "\<lparr>vx = - 17, vy = 0, vz = - 17\<rparr>"
      and d = "\<lparr>vx = - 16.75, vy = 3, vz = - 18.25\<rparr>"] blocked freeX
  show ?thesis by simp
qed

text \<open>
  Claim C4, as it stands, fails: no blocked displacement has both single-axis candidates
  free and both coordinates at their desired values after the step. Once the X movement
  is applied, the Z candidate is the full desired position, which is blocked.
\<close>

theorem sliding_never_both_axes:
  "\<not> (\<exists>obs p d r.
        collidesWithAnyObstacle obs (d\<lparr>vy := vy p\<rparr>) r
        \<and> \<not> collidesWithAnyObstacle obs (candidateX p d) r
        \<and> \<not> collidesWithAnyObstacle obs (candidateZ p d) r
        \<and> vx (resolveHorizontalMove obs p d r) = vx d
        \<and> vz (resolveHorizontalMove obs p d r) = vz d)"
proof
  assume "\<exists>obs p d r.
        collidesWithAnyObstacle obs (d\<lparr>vy := vy p\<rparr>) r
        \<and> \<not> collidesWithAnyObstacle obs (candidateX p d) r
        \<and> \<not> collidesWithAnyObstacle obs (candidateZ p d) r
        \<and> vx (resolveHorizontalMove obs p d r) = vx d
        \<and> vz (resolveHorizontalMove obs p d r) = vz d"
  then obtain obs p d r where
    blocked: "collidesWithAnyObstacle obs (d\<lparr>vy := vy p\<rparr>) r"
    and freeX: "\<not> collidesWithAnyObstacle obs (candidateX p d) r"
    and z: "vz (resolveHorizontalMove obs p d r) = vz d"
    by blast
  from blocked freeX have "resolveHorizontalMove obs p d r = candidateX p d"
    by (simp add: resolveHorizontalMove_blocked)
  with z have "vz p = vz d"
    by (simp add: candidateX_def)
  then have "candidateX p d = d\<lparr>vy := vy p\<rparr>"
    unfolding candidateX_def by (intro vec3.equality) simp_all
  with blocked freeX show False by simp
qed

text \<open>
  Claim C4, amended. During axis-separated sliding at most one axis movement is applied
  in a frame: the result of a blocked move is the X-only candidate when that is free,
  otherwise the Z-only candidate when that is free, otherwise the unchanged position. So
  at least one of X and Z keeps its prior value, and sliding against a corner advances
  along X only.
\<close>

theorem sliding_one_axis:
  "collidesWithAnyObstacle obs (d\<lparr>vy := vy p\<rparr>) r \<longrightarrow>
     resolveHorizontalMove obs p d r =
       (if \<not> collidesWithAnyObstacle obs (candidateX p d) r then candidateX p d
        else if \<not> collidesWithAnyObstacle obs (candidateZ p d) r then candidateZ p d
        else p)
     \<and> (vx (resolveHorizontalMove obs p d r) = vx p
          \<or> vz (resolveHorizontalMove obs p d r) = vz p)"
  by (simp add: resolveHorizontalMove_blocked candidateX_def candidateZ_def)

theorem sliding_one_axis_witness:
  "collidesWithAnyObstacle maze_obstacles (\<lparr>vx = - 18.25, vy = 7, vz = - 16.75\<rparr>\<lparr>vy := 0\<rparr>) 0.5
   \<and> collidesWithAnyObstacle maze_obstacles
        (candidateX \<lparr>vx = - 17, vy = 0, vz = - 17\<rparr> \<lparr>vx = - 18.25, vy = 7, vz = - 16.75\<rparr>) 0.5
   \<and> \<not> collidesWithAnyObstacle maze_obstacles
        (candidateZ \<lparr>vx = - 17, vy = 0, vz = - 17\<rparr> \<lparr>vx = - 18.25, vy = 7, vz = - 16.75\<rparr>) 0.5
   \<and> resolveHorizontalMove maze_obstacles \<lparr>vx = - 17, vy = 0, vz = - 17\<rparr>
        \<lparr>vx = - 18.25, vy = 7, vz = - 16.75\<rparr> 0.5
       = candidateZ \<lparr>vx = - 17, vy = 0, vz = - 17\<rparr> \<lparr>vx = - 18.25, vy = 7, vz = - 16.75\<rparr>
   \<and> vx (resolveHorizontalMove maze_obstacles \<lparr>vx = - 17, vy = 0, vz = - 17\<rparr>
        \<lparr>vx = - 18.25, vy = 7, vz = - 16.75\<rparr> 0.5) = - 17"
proof -
  have blocked:
    "collidesWithAnyObstacle maze_obstacles (\<lparr>vx = - 18.25, vy = 7, vz = - 16.75\<rparr>\<lparr>vy := 0\<rparr>) 0.5"
    by (simp add: maze_eval)
  have blockedX: "collidesWithAnyObstacle maze_obstacles
        (candidateX \<lparr>vx = - 17, vy = 0, vz = - 17\<rparr> \<lparr>vx = - 18.25, vy = 7, vz = - 16.75\<rparr>) 0.5"
    by (simp add: candidateX_def maze_eval)
  have freeZ: "\<not> collidesWithAnyObstacle maze_obstacles
        (candidateZ \<lparr>vx = - 17, vy = 0, vz = - 17\<rparr> \<lparr>vx = - 18.25, vy = 7, vz = - 16.75\<rparr>) 0.5"
    by (simp add: candidateZ_def maze_eval)
  from sliding_one_axis [where obs = maze_obstacles and r = "0.5"
      and p = "\<lparr>vx = - 17, vy = 0, vz = - 17\<rparr>"
      and d = "\<lparr>vx = - 18.25, vy = 7, vz = - 16.75\<rparr>"] blocked blockedX freeZ
  show ?thesis by (simp add: candidateZ_def)
qed

text \<open>
  Claim C9. Resolving a horizontal move whose desired position is the current position
  returns that position unchanged, for every obstacle list, radius and position that
  collides with no obstacle; with none of the four movement keys pressed the desired
  position is the current position.
\<close>

theorem resolveHorizontalMove_idempotent:
  "(\<not> collidesWithAnyObstacle obs p r \<longrightarrow> resolveHorizontalMove obs p p r = p)
   \<and> desiredPosition
        \<lparr>key_escape = esc, key_w = False, key_s = False, key_a = False, key_d = False\<rparr> st
       = objectPos st"
  by (simp add: resolveHorizontalMove_same desiredPosition_def Let_def)

theorem resolveHorizontalMove_idempotent_witness:
  "\<not> collidesWithAnyObstacle maze_obstacles \<lparr>vx = - 17, vy = 0, vz = - 17\<rparr> 0.5
   \<and> resolveHorizontalMove maze_obstacles \<lparr>vx = - 17, vy = 0, vz = - 17\<rparr>
        \<lparr>vx = - 17, vy = 0, vz = - 17\<rparr> 0.5 = \<lparr>vx = - 17, vy = 0, vz = - 17\<rparr>
   \<and> desiredPosition
        \<lparr>key_escape = False, key_w = False, key_s = False, key_a = False, key_d = False\<rparr>
        initial_state = objectPos initial_state"
  using maze_start_free
    resolveHorizontalMove_idempotent [where obs = maze_obstacles and r = "0.5"
      and p = "\<lparr>vx = - 17, vy = 0, vz = - 17\<rparr>" and esc = False and st = initial_state]
  by blast

text \<open>
  Claim C10. The horizontally resolved position takes its X from the current or the
  desired X, its Z from the current or the desired Z, and its Y from the current Y: the
  desired Y is overwritten before the collision tests, and no other coordinate value is
  ever produced.
\<close>

theorem resolveHorizontalMove_coordinates:
  "(vx (resolveHorizontalMove obs p d r) = vx p \<or> vx (resolveHorizontalMove obs p d r) = vx d)
   \<and> (vz (resolveHorizontalMove obs p d r) = vz p \<or> vz (resolveHorizontalMove obs p d r) = vz d)
   \<and> vy (resolveHorizontalMove obs p d r) = vy p"
  by (simp add: resolveHorizontalMove_def Let_def)

theorem resolveHorizontalMove_coordinates_witness:
  "vx (resolveHorizontalMove maze_obstacles \<lparr>vx = - 17, vy = 0, vz = - 17\<rparr>
        \<lparr>vx = - 16.75, vy = 3, vz = - 18.25\<rparr> 0.5) = vx \<lparr>vx = - 16.75, vy = 3, vz = - 18.25\<rparr>
   \<and> vz (resolveHorizontalMove maze_obstacles \<lparr>vx = - 17, vy = 0, vz = - 17\<rparr>
        \<lparr>vx = - 16.75, vy = 3, vz = - 18.25\<rparr> 0.5) = vz \<lparr>vx = - 17, vy = 0, vz = - 17\<rparr>
   \<and> vy (resolveHorizontalMove maze_obstacles \<lparr>vx = - 17, vy = 0, vz = - 17\<rparr>
        \<lparr>vx = - 16.75, vy = 3, vz = - 18.25\<rparr> 0.5) = vy \<lparr>vx = - 17, vy = 0, vz = - 17\<rparr>"
  using maze_slide_x
    resolveHorizontalMove_coordinates [where obs = maze_obstacles and r = "0.5"
      and p = "\<lparr>vx = - 17, vy = 0, vz = - 17\<rparr>"
      and d = "\<lparr>vx = - 16.75, vy = 3, vz = - 18.25\<rparr>"]
  by simp

section \<open>Properties of the vertical placement\<close>

lemma platformScan_none:
  "\<forall>p \<in> set ps. \<not> containsXZ p x z \<Longrightarrow> platformScan ps x z (found, best) = (found, best)"
  by (induction ps arbitrary: found best) (auto simp: containsXZ_def)

lemma highestPlatformTopAtXZ_none:
  "\<forall>p \<in> set ps. \<not> containsXZ p x z \<Longrightarrow> highestPlatformTopAtXZ ps x z = None"
  by (simp add: highestPlatformTopAtXZ_def platformScan_none)

lemma platformScan_step:
  "platformScan (p # ps) x z (found, best) =
     (if containsXZ p x z \<and> vy (bmax p) > best then platformScan ps x z (True, vy (bmax p))
      else platformScan ps x z (found, best))"
  by (simp add: containsXZ_def)

text \<open>The loop invariant: \<open>best\<close> never decreases and bounds the top of every containing
  platform seen; \<open>found\<close> and \<open>best\<close> change only to the top of a containing platform
  above the previous \<open>best\<close>.\<close>

lemma platformScan_inv:
  "platformScan ps x z (found, best) = (found', best') \<Longrightarrow>
     (\<forall>p \<in> set ps. containsXZ p x z \<longrightarrow> vy (bmax p) \<le> best') \<and> best \<le> best' \<and>
     ((found' = found \<and> best' = best) \<or>
      (found' \<and> best < best' \<and> (\<exists>p \<in> set ps. containsXZ p x z \<and> vy (bmax p) = best')))"
proof (induction ps arbitrary: found best)
  case Nil
  then show ?case by simp
next
  case (Cons q ps)
  show ?case
  proof (cases "containsXZ q x z \<and> vy (bmax q) > best")
    case True
    with Cons.prems have "platformScan ps x z (True, vy (bmax q)) = (found', best')"
      by (simp add: platformScan_step del: platformScan.simps)
    from Cons.IH [OF this] True show ?thesis by fastforce
  next
    case False
    with Cons.prems have "platformScan ps x z (found, best) = (found', best')"
      by (simp add: platformScan_step del: platformScan.simps)
    from Cons.IH [OF this] False show ?thesis by fastforce
  qed
qed

text \<open>What the query returns: the greatest top among the containing platforms, provided
  it lies above the initial \<open>best\<close>; no support when every containing platform's top is
  at or below it.\<close>

lemma highestPlatformTopAtXZ_None_iff:
  "highestPlatformTopAtXZ ps x z = None \<longleftrightarrow>
     (\<forall>p \<in> set ps. containsXZ p x z \<longrightarrow> vy (bmax p) \<le> - 1000000000)"
proof -
  obtain f b where fb: "platformScan ps x z (False, - 1000000000) = (f, b)"
    by (cases "platformScan ps x z (False, - 1000000000)")
  note inv = platformScan_inv [OF fb]
  have res: "highestPlatformTopAtXZ ps x z = (if f then Some b else None)"
    by (simp add: highestPlatformTopAtXZ_def fb)
  from inv res show ?thesis by (cases f) auto
qed










section \<open>Properties of the frame update\<close>

lemma snapToPlatform_xz:
  "vx (snapToPlatform ps q) = vx q \<and> vz (snapToPlatform ps q) = vz q"
  by (simp add: snapToPlatform_def split: option.split)

lemma desiredPosition_no_keys:
  "desiredPosition
     \<lparr>key_escape = esc, key_w = False, key_s = False, key_a = False, key_d = False\<rparr> st
    = objectPos st"
  by (simp add: desiredPosition_def Let_def)

text \<open>
  Claim C6. The support-height query is a total function whose result for a point that no
  platform contains is the explicit value \<open>None\<close>, and when no platform contains the
  actor's horizontal position after the move, \<open>processInput\<close> leaves the actor's vertical
  coordinate as it was.
\<close>

theorem processInput_holds_height:
  "((\<forall>p \<in> set plats. \<not> containsXZ p x z) \<longrightarrow> highestPlatformTopAtXZ plats x z = None)
   \<and> ((\<forall>p \<in> set (platforms st).
          \<not> containsXZ p (vx (objectPos (processInput keys st)))
                          (vz (objectPos (processInput keys st))))
        \<longrightarrow> vy (objectPos (processInput keys st)) = vy (objectPos st))"
proof (intro conjI impI)
  assume "\<forall>p \<in> set plats. \<not> containsXZ p x z"
  then show "highestPlatformTopAtXZ plats x z = None"
    by (rule highestPlatformTopAtXZ_none)
next
  define st1 where "st1 = (if key_escape keys then st\<lparr>windowShouldClose := True\<rparr> else st)"
  define moved where "moved = resolveHorizontalMove (obstacles st1) (objectPos st1)
      (desiredPosition keys st1) (objectRadius st1)"
  have st1: "platforms st1 = platforms st" "objectPos st1 = objectPos st"
    by (simp_all add: st1_def)
  have pos: "objectPos (processInput keys st) = snapToPlatform (platforms st) moved"
    by (simp add: processInput_def Let_def moved_def st1_def)
  assume "\<forall>p \<in> set (platforms st).
          \<not> containsXZ p (vx (objectPos (processInput keys st)))
                          (vz (objectPos (processInput keys st)))"
  then have "\<forall>p \<in> set (platforms st). \<not> containsXZ p (vx moved) (vz moved)"
    by (simp add: pos snapToPlatform_xz)
  then have "highestPlatformTopAtXZ (platforms st) (vx moved) (vz moved) = None"
    by (rule highestPlatformTopAtXZ_none)
  then have "snapToPlatform (platforms st) moved = moved"
    by (simp add: snapToPlatform_def)
  then show "vy (objectPos (processInput keys st)) = vy (objectPos st)"
    by (simp add: pos moved_def resolveHorizontalMove_vy st1)
qed

theorem processInput_holds_height_witness:
  "\<not> (\<exists>p \<in> set maze_platforms. containsXZ p 100 100)
   \<and> highestPlatformTopAtXZ maze_platforms 100 100 = None
   \<and> objectPos (processInput
        \<lparr>key_escape = False, key_w = False, key_s = False, key_a = False, key_d = False\<rparr>
        (initial_state\<lparr>objectPos := \<lparr>vx = 100, vy = 5, vz = 100\<rparr>\<rparr>))
       = \<lparr>vx = 100, vy = 5, vz = 100\<rparr>"
proof -
  let ?keys = "\<lparr>key_escape = False, key_w = False, key_s = False, key_a = False, key_d = False\<rparr>"
  let ?st = "initial_state\<lparr>objectPos := \<lparr>vx = 100, vy = 5, vz = 100\<rparr>\<rparr>"
  have plats: "platforms ?st = maze_platforms"
    by (simp add: initial_state_def)
  have outside: "\<forall>p \<in> set maze_platforms. \<not> containsXZ p 100 100"
    by (simp add: maze_platforms_def box_def containsXZ_def)
  have moved: "resolveHorizontalMove maze_obstacles \<lparr>vx = 100, vy = 5, vz = 100\<rparr>
      \<lparr>vx = 100, vy = 5, vz = 100\<rparr> 0.5 = \<lparr>vx = 100, vy = 5, vz = 100\<rparr>"
    by (rule resolveHorizontalMove_same)
  have xz: "vx (objectPos (processInput ?keys ?st)) = 100 \<and> vz (objectPos (processInput ?keys ?st)) = 100"
    using moved
    by (simp add: processInput_def Let_def desiredPosition_no_keys initial_state_def
        snapToPlatform_xz)
  have y: "vy (objectPos (processInput ?keys ?st)) = 5"
    using processInput_holds_height [where st = ?st and keys = ?keys] outside xz plats
    by simp
  have none: "highestPlatformTopAtXZ maze_platforms 100 100 = None"
    using processInput_holds_height [where plats = maze_platforms and x = 100 and z = 100]
      outside
    by blast
  have "objectPos (processInput ?keys ?st) = \<lparr>vx = 100, vy = 5, vz = 100\<rparr>"
    using xz y by (intro vec3.equality) simp_all
  with outside none show ?thesis by blast
qed

section \<open>Properties of the orbit camera\<close>

text \<open>
  Claim C7, as it stands, fails in its last part: \<open>scroll_callback\<close> subtracts the scaled
  scroll offset from the distance, so a large negative scroll offset leaves the distance
  at \<open>10\<close>, not at \<open>1.2\<close>, and a large positive one leaves it at \<open>1.2\<close>, not at \<open>10\<close>.
\<close>

theorem scroll_callback_sign:
  "camDistance (scroll_callback 0 (- 1000) initial_state) = 10
   \<and> camDistance (scroll_callback 0 (- 1000) initial_state) \<noteq> 1.2
   \<and> camDistance (scroll_callback 0 1000 initial_state) = 1.2
   \<and> camDistance (scroll_callback 0 1000 initial_state) \<noteq> 10"
  by (simp add: scroll_callback_def initial_state_def Let_def std_max_eq std_min_eq)

text \<open>
  Claim C7, amended. After every pointer update the camera pitch lies in \<open>[-89, 89]\<close> and
  after every scroll update the camera distance lies in \<open>[1.2, 10]\<close>. A pointer update
  whose scaled vertical offset takes the pitch above \<open>89\<close> leaves it at exactly \<open>89\<close>. A
  scroll offset large enough in the positive direction leaves the distance at exactly
  \<open>1.2\<close>, one large enough in the negative direction at exactly \<open>10\<close>.
\<close>

theorem camera_clamps:
  "- 89 \<le> camPitch (mouse_callback xpos ypos st) \<and> camPitch (mouse_callback xpos ypos st) \<le> 89
   \<and> 1.2 \<le> camDistance (scroll_callback xoffset yoffset st)
   \<and> camDistance (scroll_callback xoffset yoffset st) \<le> 10
   \<and> (\<not> firstMouse st \<and> 89 < camPitch st + (lastY st - ypos) * mouseSensitivity st
        \<longrightarrow> camPitch (mouse_callback xpos ypos st) = 89)
   \<and> (camDistance st - yoffset * 0.4 \<le> 1.2
        \<longrightarrow> camDistance (scroll_callback xoffset yoffset st) = 1.2)
   \<and> (10 \<le> camDistance st - yoffset * 0.4
        \<longrightarrow> camDistance (scroll_callback xoffset yoffset st) = 10)"
  by (simp add: mouse_callback_def scroll_callback_def Let_def std_max_eq std_min_eq)

theorem camera_clamps_witness:
  "\<not> firstMouse (initial_state\<lparr>firstMouse := False\<rparr>)
   \<and> 89 < camPitch (initial_state\<lparr>firstMouse := False\<rparr>)
          + (lastY (initial_state\<lparr>firstMouse := False\<rparr>) - (- 700))
            * mouseSensitivity (initial_state\<lparr>firstMouse := False\<rparr>)
   \<and> camPitch (mouse_callback 400 (- 700) (initial_state\<lparr>firstMouse := False\<rparr>)) = 89
   \<and> camDistance (initial_state\<lparr>firstMouse := False\<rparr>) - 1000 * 0.4 \<le> 1.2
   \<and> camDistance (scroll_callback 0 1000 (initial_state\<lparr>firstMouse := False\<rparr>)) = 1.2
   \<and> 10 \<le> camDistance (initial_state\<lparr>firstMouse := False\<rparr>) - (- 1000) * 0.4
   \<and> camDistance (scroll_callback 0 (- 1000) (initial_state\<lparr>firstMouse := False\<rparr>)) = 10"
proof -
  let ?st = "initial_state\<lparr>firstMouse := False\<rparr>"
  have pre: "\<not> firstMouse ?st"
    "89 < camPitch ?st + (lastY ?st - (- 700)) * mouseSensitivity ?st"
    "camDistance ?st - 1000 * 0.4 \<le> 1.2"
    "10 \<le> camDistance ?st - (- 1000) * 0.4"
    by (simp_all add: initial_state_def)
  have "camPitch (mouse_callback 400 (- 700) ?st) = 89"
    and "camDistance (scroll_callback 0 1000 ?st) = 1.2"
    using camera_clamps [where st = ?st and xpos = 400 and ypos = "- 700" and xoffset = 0
        and yoffset = 1000] pre(1,2,3)
    by blast+
  moreover have "camDistance (scroll_callback 0 (- 1000) ?st) = 10"
    using camera_clamps [where st = ?st and xoffset = 0 and yoffset = "- 1000"] pre(4)
    by blast
  ultimately show ?thesis using pre by blast
qed

lemma normalize_unit:
  "normalize \<lparr>vx = cos a, vy = 0, vz = sin a\<rparr> = \<lparr>vx = cos a, vy = 0, vz = sin a\<rparr>"
  by (simp add: normalize_def dot_def inversesqrt_def smul_def power2_eq_square [symmetric])

text \<open>
  Claim C8. The camera position of a frame is the target position minus \<open>forward\<close> times
  the distance plus the vertical offset \<open>distance * sin pitch\<close>, where \<open>forward\<close> is the
  normalised \<open>(cos yaw, 0, sin yaw)\<close> and the angles are the stored degrees converted to
  radians; the pitch enters the vertical coordinate only. The point the view transform
  looks at is the target position raised by \<open>0.8\<close>, whatever the yaw, pitch and distance.
\<close>

theorem cameraFrame_formula:
  "fst (cameraFrame st) =
      vadd (vsub (objectPos st)
              (smul (normalize \<lparr>vx = cos (radians (camYaw st)), vy = 0,
                                 vz = sin (radians (camYaw st))\<rparr>)
                 (camDistance st)))
           \<lparr>vx = 0, vy = camDistance st * sin (radians (camPitch st)), vz = 0\<rparr>
   \<and> fst (cameraFrame st) =
      \<lparr>vx = vx (objectPos st) - cos (radians (camYaw st)) * camDistance st,
       vy = vy (objectPos st) + camDistance st * sin (radians (camPitch st)),
       vz = vz (objectPos st) - sin (radians (camYaw st)) * camDistance st\<rparr>
   \<and> snd (cameraFrame st) = vadd (objectPos st) \<lparr>vx = 0, vy = 0.8, vz = 0\<rparr>
   \<and> snd (cameraFrame (st\<lparr>camYaw := yaw', camPitch := pitch', camDistance := distance'\<rparr>))
       = snd (cameraFrame st)"
  by (simp add: cameraFrame_def Let_def normalize_unit vadd_def vsub_def smul_def)

theorem cameraFrame_formula_witness:
  "cameraFrame (initial_state\<lparr>camPitch := 0\<rparr>)
     = (\<lparr>vx = - 17, vy = 0, vz = - 14\<rparr>, \<lparr>vx = - 17, vy = 0.8, vz = - 17\<rparr>)"
proof -
  let ?st = "initial_state\<lparr>camPitch := 0\<rparr>"
  have ang: "radians (camYaw ?st) = - (pi / 2)" "radians (camPitch ?st) = 0"
    by (simp_all add: radians_def initial_state_def)
  have a: "fst (cameraFrame ?st) =
      \<lparr>vx = vx (objectPos ?st) - cos (radians (camYaw ?st)) * camDistance ?st,
       vy = vy (objectPos ?st) + camDistance ?st * sin (radians (camPitch ?st)),
       vz = vz (objectPos ?st) - sin (radians (camYaw ?st)) * camDistance ?st\<rparr>"
    and b: "snd (cameraFrame ?st) = vadd (objectPos ?st) \<lparr>vx = 0, vy = 0.8, vz = 0\<rparr>"
    using cameraFrame_formula [where st = ?st and yaw' = 0 and pitch' = 0 and distance' = 0]
    by blast+
  have "fst (cameraFrame ?st) = \<lparr>vx = - 17, vy = 0, vz = - 14\<rparr>"
    unfolding a ang by (simp add: initial_state_def)
  moreover have "snd (cameraFrame ?st) = \<lparr>vx = - 17, vy = 0.8, vz = - 17\<rparr>"
    unfolding b by (simp add: initial_state_def vadd_def)
  ultimately show ?thesis by (simp add: prod_eq_iff)
qed

end
